theory Spec2Isabelle
  imports Complex_Main "HOL-Library.Word"
begin

section \<open>C++ double values\<close>

text \<open>
  The sources compute on C++ \<open>double\<close>. A double is a number, one of the two
  infinities, or a NaN. Comparisons follow IEEE 754: every ordered comparison
  with a NaN is false. The result of an addition or subtraction of two numbers
  is the exact result rounded to a double; the rounding (which may also overflow
  to an infinity) is a parameter \<open>rnd\<close> of the operations, so that every
  theorem holds for whatever rounding the platform performs.
\<close>

datatype double = Finite real | PosInf | NegInf | NaN

fun dless :: "double \<Rightarrow> double \<Rightarrow> bool" where
  "dless NaN y = False"
| "dless x NaN = False"
| "dless (Finite x) (Finite y) = (x < y)"
| "dless (Finite x) PosInf = True"
| "dless (Finite x) NegInf = False"
| "dless PosInf y = False"
| "dless NegInf NegInf = False"
| "dless NegInf y = True"

fun dle :: "double \<Rightarrow> double \<Rightarrow> bool" where
  "dle NaN y = False"
| "dle x NaN = False"
| "dle (Finite x) (Finite y) = (x \<le> y)"
| "dle (Finite x) PosInf = True"
| "dle (Finite x) NegInf = False"
| "dle PosInf PosInf = True"
| "dle PosInf y = False"
| "dle NegInf y = True"

definition dgt :: "double \<Rightarrow> double \<Rightarrow> bool" where
  "dgt x y = dless y x"

definition dge :: "double \<Rightarrow> double \<Rightarrow> bool" where
  "dge x y = dle y x"

fun dneg :: "double \<Rightarrow> double" where
  "dneg (Finite x) = Finite (- x)"
| "dneg PosInf = NegInf"
| "dneg NegInf = PosInf"
| "dneg NaN = NaN"

fun dadd :: "(real \<Rightarrow> double) \<Rightarrow> double \<Rightarrow> double \<Rightarrow> double" where
  "dadd rnd NaN y = NaN"
| "dadd rnd x NaN = NaN"
| "dadd rnd (Finite x) (Finite y) = rnd (x + y)"
| "dadd rnd (Finite x) y = y"
| "dadd rnd PosInf NegInf = NaN"
| "dadd rnd NegInf PosInf = NaN"
| "dadd rnd x y = x"

definition dsub :: "(real \<Rightarrow> double) \<Rightarrow> double \<Rightarrow> double \<Rightarrow> double" where
  "dsub rnd x y = dadd rnd x (dneg y)"

fun fabs :: "double \<Rightarrow> double" where
  "fabs (Finite x) = Finite \<bar>x\<bar>"
| "fabs PosInf = PosInf"
| "fabs NegInf = PosInf"
| "fabs NaN = NaN"

fun isnan :: "double \<Rightarrow> bool" where
  "isnan NaN = True"
| "isnan x = False"

fun isinf :: "double \<Rightarrow> bool" where
  "isinf PosInf = True"
| "isinf NegInf = True"
| "isinf x = False"

text \<open>\<open>fmin\<close> and \<open>fmax\<close> return the other argument when one is a NaN.\<close>

definition fmin :: "double \<Rightarrow> double \<Rightarrow> double" where
  "fmin x y = (if isnan x then y else if isnan y then x else if dless y x then y else x)"

definition fmax :: "double \<Rightarrow> double \<Rightarrow> double" where
  "fmax x y = (if isnan x then y else if isnan y then x else if dless x y then y else x)"

text \<open>
  \<open>(int)std::lrint(D)\<close>: the number nearest to \<open>D\<close>, ties to the even one
  (the default rounding mode). For a NaN, an infinity, or a result that does not
  fit an \<open>int\<close>, the language does not fix the value; the platform's choice
  is the parameter \<open>unspec\<close>.
\<close>

definition rint :: "real \<Rightarrow> int" where
  "rint r =
     (let f = \<lfloor>r\<rfloor>; d = r - of_int f
      in if d < 1 / 2 then f else if 1 / 2 < d then f + 1
         else if even f then f else f + 1)"

fun lrint_int :: "(double \<Rightarrow> int) \<Rightarrow> double \<Rightarrow> int" where
  "lrint_int unspec (Finite r) =
     (if - (2 ^ 31) \<le> rint r \<and> rint r \<le> 2 ^ 31 - 1 then rint r else unspec (Finite r))"
| "lrint_int unspec x = unspec x"

section \<open>ThresholdCompare.cpp\<close>

text \<open>
  The aSub record as far as \<open>thresholdCompare\<close> reads and writes it: the four
  input buffers A to D and the output buffer VALA, each a pointer that may be
  NULL (\<open>None\<close>).
\<close>

record aSubRecord =
  fld_a :: "double option"
  fld_b :: "double option"
  fld_c :: "double option"
  fld_d :: "double option"
  fld_vala :: "int option"

definition deref_or_zero :: "double option \<Rightarrow> double" where
  "deref_or_zero p = (case p of None \<Rightarrow> Finite 0 | Some v \<Rightarrow> v)"

text \<open>The value \<open>out\<close> that \<open>thresholdCompare\<close> computes from A, B, C and D.\<close>

definition compare_out ::
  "(real \<Rightarrow> double) \<Rightarrow> (double \<Rightarrow> int) \<Rightarrow> double \<Rightarrow> double \<Rightarrow> double \<Rightarrow> double \<Rightarrow> int" where
  "compare_out rnd unspec A B C D =
     (let prev = lrint_int unspec D
      in if dge A (dadd rnd B C) then 1
         else if dle A (dsub rnd B C) then 0
         else prev)"

text \<open>
  \<open>thresholdCompare\<close> returns 0 in every case; the record comes back with VALA
  overwritten when the record and its VALA buffer exist.
\<close>

definition thresholdCompare ::
  "(real \<Rightarrow> double) \<Rightarrow> (double \<Rightarrow> int) \<Rightarrow> aSubRecord option \<Rightarrow> int \<times> aSubRecord option" where
  "thresholdCompare rnd unspec prec =
     (case prec of
        None \<Rightarrow> (0, None)
      | Some r \<Rightarrow>
          (let A = deref_or_zero (fld_a r);
               B = deref_or_zero (fld_b r);
               C = deref_or_zero (fld_c r);
               D = deref_or_zero (fld_d r);
               out = compare_out rnd unspec A B C D
           in (0, Some (if fld_vala r \<noteq> None then r\<lparr>fld_vala := Some out\<rparr> else r))))"

text \<open>A record with all five buffers present.\<close>

definition aSub :: "double \<Rightarrow> double \<Rightarrow> double \<Rightarrow> double \<Rightarrow> aSubRecord" where
  "aSub A B C D = \<lparr>fld_a = Some A, fld_b = Some B, fld_c = Some C, fld_d = Some D, fld_vala = Some 0\<rparr>"

text \<open>The output that \<open>thresholdCompare\<close> leaves in VALA for the scalar inputs.\<close>

definition compare_vala ::
  "(real \<Rightarrow> double) \<Rightarrow> (double \<Rightarrow> int) \<Rightarrow> double \<Rightarrow> double \<Rightarrow> double \<Rightarrow> double \<Rightarrow> int option" where
  "compare_vala rnd unspec A B C D =
     (case snd (thresholdCompare rnd unspec (Some (aSub A B C D))) of
        None \<Rightarrow> None
      | Some r \<Rightarrow> fld_vala r)"

section \<open>ErrorHandler.h: enumerations and structures\<close>

datatype ErrorLevel = INFO | WARNING | ERROR | FATAL

datatype AlarmSeverity = NO_ALARM | MINOR_ALARM | MAJOR_ALARM | INVALID_ALARM

datatype AlarmStatus =
    NO_ALARM_STATUS | READ_ALARM | WRITE_ALARM | HIHI_ALARM | HIGH_ALARM | LOLO_ALARM
  | LOW_ALARM | STATE_ALARM | COS_ALARM | COMM_ALARM | TIMEOUT_ALARM | HW_LIMIT_ALARM
  | CALC_ALARM | SCAN_ALARM | LINK_ALARM | SOFT_ALARM | BAD_SUB_ALARM | UDF_ALARM
  | DISABLE_ALARM | SIMM_ALARM | READ_ACCESS_ALARM | WRITE_ACCESS_ALARM

text \<open>The status codes of asyn (asynDriver.h).\<close>

datatype asynStatus =
  asynSuccess | asynTimeout | asynOverflow | asynError | asynDisconnected | asynDisabled

text \<open>
  The message texts of the sources are Korean string literals and
  \<open>snprintf\<close> formats. Each literal or format is a constructor named after
  what the text says, carrying the arguments the format prints.
\<close>

datatype msgtext =
    TxtEmpty
  | MsgNullPointer
  | MsgNullAsynUser
  | MsgAlarmSet AlarmStatus AlarmSeverity
  | MsgPortNameInvalid | SugPortNameCharset
  | MsgDevicePortInvalid | SugDevicePortValid
  | MsgDeviceAddrRange | SugDeviceAddrRange
  | MsgUpdateRateRange | SugUpdateRateRange
  | MsgPriorityRange | SugPriorityRange
  | MsgThresholdRange | SugThresholdRange
  | MsgHysteresisRange | SugHysteresisRange
  | MsgHysteresisAboveThreshold | SugHysteresisBelowThreshold
  | MsgConfigValid
  | MsgRuntimeError string int
  | MsgMemoryAllocation | MsgThreadCreation | MsgParameterValidation
  | MsgDeviceCommunication | MsgTimeout
  | MsgCommError string int msgtext
  | TxtReadCurrentValue | TxtSetOutputState
  | MsgThreadError string string
  | MsgFatalThreadError
  | MsgParamNotANumber string
  | MsgParamOutOfRange string double double double
  | MsgIntParamOutOfRange string int int int
  | MsgStringNull string
  | MsgStringEmpty string
  | MsgStringTooLong string nat nat
  | MsgThresholdOutOfRange
  | MsgThresholdBelowHysteresis double double
  | MsgHysteresisOutOfRange
  | MsgUpdateRateOutOfRange
  | MsgConfigWarning
  | MsgControllerCreated string string int

record ValidationResult =
  isValid :: bool
  errorLevel :: ErrorLevel
  errorMessage :: msgtext
  suggestion :: msgtext

text \<open>\<open>portName\<close> and \<open>devicePort\<close> are \<open>char[64]\<close>; the string is the content before the NUL.\<close>

record ThresholdConfig =
  portName :: string
  devicePort :: string
  deviceAddr :: int
  updateRate :: double
  priority :: int
  thresholdValue :: double
  hysteresis :: double

text \<open>An \<open>asynUser\<close>, as far as the sources read it: the parameter index in \<open>reason\<close>.\<close>

datatype param =
    P_ThresholdValue | P_CurrentValue | P_OutputState | P_CompareResult | P_Enable
  | P_Hysteresis | P_UpdateRate | P_AlarmStatus | P_DevicePort | P_DeviceAddr
  | P_Other int

record asynUser =
  reason :: param

text \<open>
  The static members of \<open>ErrorHandler\<close>: the four counters (C++ \<open>int\<close>, 32 bits
  wide; \<open>++\<close> is addition on the word) and, as \<open>logged\<close>, the lines that
  \<open>internalLog\<close> has printed: level, source and message of each. A member
  that the sources write \<open>name_\<close> is the field \<open>name_m\<close> here.
\<close>

record ErrorHandler =
  infoCount_m :: "32 word"
  warningCount_m :: "32 word"
  errorCount_m :: "32 word"
  fatalCount_m :: "32 word"
  logged :: "(ErrorLevel \<times> string \<times> msgtext) list"

section \<open>ErrorHandler.cpp\<close>

text \<open>
  \<open>internalLog\<close> prints one line to the console, and to the asyn trace when
  \<open>pasynUser\<close> is not NULL.
\<close>

definition internalLog ::
  "ErrorLevel \<Rightarrow> string \<Rightarrow> msgtext \<Rightarrow> asynUser option \<Rightarrow> ErrorHandler \<Rightarrow> ErrorHandler" where
  "internalLog level source message pasynUser eh =
     eh\<lparr>logged := logged eh @ [(level, source, message)]\<rparr>"

definition logError ::
  "ErrorLevel \<Rightarrow> string option \<Rightarrow> msgtext option \<Rightarrow> asynUser option \<Rightarrow> ErrorHandler \<Rightarrow> ErrorHandler" where
  "logError level source message pasynUser eh =
     (case (source, message) of
        (Some src, Some msg) \<Rightarrow>
          internalLog level src msg pasynUser
            (case level of
               INFO \<Rightarrow> eh\<lparr>infoCount_m := infoCount_m eh + 1\<rparr>
             | WARNING \<Rightarrow> eh\<lparr>warningCount_m := warningCount_m eh + 1\<rparr>
             | ERROR \<Rightarrow> eh\<lparr>errorCount_m := errorCount_m eh + 1\<rparr>
             | FATAL \<Rightarrow> eh\<lparr>fatalCount_m := fatalCount_m eh + 1\<rparr>)
      | _ \<Rightarrow> eh)"

definition setAlarmStatus ::
  "asynUser option \<Rightarrow> AlarmStatus \<Rightarrow> AlarmSeverity \<Rightarrow> ErrorHandler \<Rightarrow> asynStatus \<times> ErrorHandler" where
  "setAlarmStatus pasynUser status severity eh =
     (if pasynUser = None
      then (asynError,
            logError ERROR (Some ''ErrorHandler::setAlarmStatus'') (Some MsgNullAsynUser) None eh)
      else
        (let logLevel = (case severity of
                           NO_ALARM \<Rightarrow> INFO
                         | MINOR_ALARM \<Rightarrow> WARNING
                         | MAJOR_ALARM \<Rightarrow> ERROR
                         | INVALID_ALARM \<Rightarrow> FATAL)
         in (asynSuccess,
             logError logLevel (Some ''ErrorHandler::setAlarmStatus'')
               (Some (MsgAlarmSet status severity)) pasynUser eh)))"

definition validateParameter ::
  "string option \<Rightarrow> double \<Rightarrow> double \<Rightarrow> double \<Rightarrow> string option \<Rightarrow> ErrorHandler
     \<Rightarrow> bool \<times> ErrorHandler" where
  "validateParameter paramName value minValue maxValue source eh =
     (case (paramName, source) of
        (Some name, Some src) \<Rightarrow>
          if isnan value \<or> isinf value
          then (False, logError ERROR source (Some (MsgParamNotANumber name)) None eh)
          else if dless value minValue \<or> dgt value maxValue
          then (False,
                logError WARNING source
                  (Some (MsgParamOutOfRange name value minValue maxValue)) None eh)
          else (True, eh)
      | _ \<Rightarrow>
          (False,
           logError ERROR (Some ''ErrorHandler::validateParameter'') (Some MsgNullPointer) None eh))"

definition validateIntParameter ::
  "string option \<Rightarrow> int \<Rightarrow> int \<Rightarrow> int \<Rightarrow> string option \<Rightarrow> ErrorHandler
     \<Rightarrow> bool \<times> ErrorHandler" where
  "validateIntParameter paramName value minValue maxValue source eh =
     (case (paramName, source) of
        (Some name, Some src) \<Rightarrow>
          if value < minValue \<or> value > maxValue
          then (False,
                logError WARNING source
                  (Some (MsgIntParamOutOfRange name value minValue maxValue)) None eh)
          else (True, eh)
      | _ \<Rightarrow>
          (False,
           logError ERROR (Some ''ErrorHandler::validateIntParameter'') (Some MsgNullPointer) None eh))"

text \<open>\<open>strlen(value)\<close> is the length of the string; \<open>maxLength\<close> is a \<open>size_t\<close>.\<close>

definition validateStringParameter ::
  "string option \<Rightarrow> string option \<Rightarrow> nat \<Rightarrow> bool \<Rightarrow> string option \<Rightarrow> ErrorHandler
     \<Rightarrow> bool \<times> ErrorHandler" where
  "validateStringParameter paramName value maxLength allowEmpty source eh =
     (case (paramName, source) of
        (Some name, Some src) \<Rightarrow>
          (case value of
             None \<Rightarrow> (False, logError ERROR source (Some (MsgStringNull name)) None eh)
           | Some v \<Rightarrow>
               if \<not> allowEmpty \<and> length v = 0
               then (False, logError WARNING source (Some (MsgStringEmpty name)) None eh)
               else if length v \<ge> maxLength
               then (False,
                     logError WARNING source
                       (Some (MsgStringTooLong name (length v) (maxLength - 1))) None eh)
               else (True, eh))
      | _ \<Rightarrow>
          (False,
           logError ERROR (Some ''ErrorHandler::validateStringParameter'')
             (Some MsgNullPointer) None eh))"

text \<open>The double literal \<open>0.1\<close>: the double nearest to one tenth.\<close>

definition lit_0_1 :: double where
  "lit_0_1 = Finite (3602879701896397 / 36028797018963968)"

definition validateConfiguration ::
  "ThresholdConfig \<Rightarrow> ErrorHandler \<Rightarrow> ValidationResult \<times> ErrorHandler" where
  "validateConfiguration config eh0 =
     (let src = Some ''ErrorHandler::validateConfiguration'';
          result = \<lparr>isValid = True, errorLevel = INFO,
                    errorMessage = TxtEmpty, suggestion = TxtEmpty\<rparr>;
          (ok1, eh1) = validateStringParameter (Some ''portName'') (Some (portName config))
                         64 False src eh0
      in if \<not> ok1
         then (result\<lparr>isValid := False, errorLevel := ERROR,
                      errorMessage := MsgPortNameInvalid, suggestion := SugPortNameCharset\<rparr>, eh1)
         else
      let (ok2, eh2) = validateStringParameter (Some ''devicePort'') (Some (devicePort config))
                         64 False src eh1
      in if \<not> ok2
         then (result\<lparr>isValid := False, errorLevel := ERROR,
                      errorMessage := MsgDevicePortInvalid, suggestion := SugDevicePortValid\<rparr>, eh2)
         else
      let (ok3, eh3) = validateIntParameter (Some ''deviceAddr'') (deviceAddr config) 0 255 src eh2
      in if \<not> ok3
         then (result\<lparr>isValid := False, errorLevel := ERROR,
                      errorMessage := MsgDeviceAddrRange, suggestion := SugDeviceAddrRange\<rparr>, eh3)
         else
      let (ok4, eh4) = validateParameter (Some ''updateRate'') (updateRate config)
                         lit_0_1 (Finite 1000) src eh3
      in if \<not> ok4
         then (result\<lparr>isValid := False, errorLevel := ERROR,
                      errorMessage := MsgUpdateRateRange, suggestion := SugUpdateRateRange\<rparr>, eh4)
         else
      let (ok5, eh5) = validateIntParameter (Some ''priority'') (priority config) 0 99 src eh4;
          result5 = (if \<not> ok5
                     then result\<lparr>isValid := False, errorLevel := WARNING,
                                 errorMessage := MsgPriorityRange, suggestion := SugPriorityRange\<rparr>
                     else result);
          (ok6, eh6) = validateParameter (Some ''thresholdValue'') (thresholdValue config)
                         (Finite (- 10)) (Finite 10) src eh5
      in if \<not> ok6
         then (result5\<lparr>isValid := False, errorLevel := ERROR,
                       errorMessage := MsgThresholdRange, suggestion := SugThresholdRange\<rparr>, eh6)
         else
      let (ok7, eh7) = validateParameter (Some ''hysteresis'') (hysteresis config)
                         (Finite 0) (Finite 5) src eh6
      in if \<not> ok7
         then (result5\<lparr>isValid := False, errorLevel := ERROR,
                       errorMessage := MsgHysteresisRange, suggestion := SugHysteresisRange\<rparr>, eh7)
         else
      let result8 = (if dgt (hysteresis config) (fabs (thresholdValue config))
                     then result5\<lparr>isValid := False, errorLevel := WARNING,
                                  errorMessage := MsgHysteresisAboveThreshold,
                                  suggestion := SugHysteresisBelowThreshold,
                                  isValid := True\<rparr>
                     else result5);
          result9 = (if isValid result8 \<and> errorLevel result8 = INFO
                     then result8\<lparr>errorMessage := MsgConfigValid, suggestion := TxtEmpty\<rparr>
                     else result8)
      in (result9, eh7))"

definition handleRuntimeError ::
  "string option \<Rightarrow> string option \<Rightarrow> int \<Rightarrow> asynUser option \<Rightarrow> ErrorHandler
     \<Rightarrow> bool \<times> ErrorHandler" where
  "handleRuntimeError source errorType errorCode pasynUser eh =
     (case (source, errorType) of
        (Some src, Some ty) \<Rightarrow>
          (let errMsg = MsgRuntimeError ty errorCode;
               level = ERROR;
               recoverable = True
           in if ty = ''MEMORY_ALLOCATION''
              then (False, logError FATAL source (Some MsgMemoryAllocation) pasynUser eh)
              else if ty = ''THREAD_CREATION''
              then (True, logError ERROR source (Some MsgThreadCreation) pasynUser eh)
              else if ty = ''PARAMETER_VALIDATION''
              then (True, logError WARNING source (Some MsgParameterValidation) pasynUser eh)
              else if ty = ''DEVICE_COMMUNICATION''
              then (True, logError ERROR source (Some MsgDeviceCommunication) pasynUser eh)
              else if ty = ''TIMEOUT''
              then (True, logError WARNING source (Some MsgTimeout) pasynUser eh)
              else (recoverable, logError level source (Some errMsg) pasynUser eh))
      | _ \<Rightarrow>
          (False,
           logError ERROR (Some ''ErrorHandler::handleRuntimeError'') (Some MsgNullPointer) None eh))"

definition handleCommunicationError ::
  "string option \<Rightarrow> string option \<Rightarrow> int \<Rightarrow> msgtext option \<Rightarrow> asynUser option \<Rightarrow> ErrorHandler
     \<Rightarrow> bool \<times> ErrorHandler" where
  "handleCommunicationError source devPort devAddr operation pasynUser eh =
     (case (source, devPort, operation) of
        (Some src, Some port, Some opn) \<Rightarrow>
          (let eh1 = logError ERROR source (Some (MsgCommError port devAddr opn)) pasynUser eh;
               eh2 = (if pasynUser \<noteq> None
                      then snd (setAlarmStatus pasynUser COMM_ALARM MAJOR_ALARM eh1)
                      else eh1)
           in (True, eh2))
      | _ \<Rightarrow>
          (False,
           logError ERROR (Some ''ErrorHandler::handleCommunicationError'')
             (Some MsgNullPointer) None eh))"

text \<open>\<open>strstr(haystack, needle) != NULL\<close>.\<close>

fun strstr_found :: "string \<Rightarrow> string \<Rightarrow> bool" where
  "strstr_found [] needle = (needle = [])"
| "strstr_found (c # cs) needle =
     (take (length needle) (c # cs) = needle \<or> strstr_found cs needle)"

definition handleThreadError ::
  "string option \<Rightarrow> string option \<Rightarrow> string option \<Rightarrow> asynUser option \<Rightarrow> ErrorHandler
     \<Rightarrow> bool \<times> ErrorHandler" where
  "handleThreadError source threadName errMsg pasynUser eh =
     (case (source, threadName, errMsg) of
        (Some src, Some tn, Some em) \<Rightarrow>
          (let eh1 = logError ERROR source (Some (MsgThreadError tn em)) pasynUser eh
           in if strstr_found em ''FATAL'' \<or> strstr_found em ''SEGFAULT''
              then (False, logError FATAL source (Some MsgFatalThreadError) pasynUser eh1)
              else (True, eh1))
      | _ \<Rightarrow>
          (False,
           logError ERROR (Some ''ErrorHandler::handleThreadError'') (Some MsgNullPointer) None eh))"

section \<open>ThresholdLogicController.h: the controller object\<close>

text \<open>
  The members of \<open>ThresholdLogicController\<close>, and of its base class
  \<open>asynPortDriver\<close> what the sources use: the port name, the parameter
  library (one value per parameter and type, the alarm status and severity of
  each parameter) and the number of \<open>callParamCallbacks\<close> calls made so far.
  \<open>monitorThread_m\<close> is the thread object (its name), \<open>None\<close> for NULL.
  \<open>devicePortName_m\<close> is a \<open>char[64]\<close>: the string before the NUL.
\<close>

record controller =
  portName_drv :: string
  doubleParams :: "param \<Rightarrow> double option"
  intParams :: "param \<Rightarrow> int option"
  stringParams :: "param \<Rightarrow> string option"
  paramAlarmStatus :: "param \<Rightarrow> int"
  paramAlarmSeverity :: "param \<Rightarrow> int"
  paramCallbacks :: nat
  monitorThread_m :: "string option"
  threadRunning_m :: bool
  threadExit_m :: bool
  thresholdValue_m :: double
  currentValue_m :: double
  outputState_m :: bool
  enabled_m :: bool
  hysteresis_m :: double
  updateRate_m :: double
  alarmStatus_m :: int
  devicePortName_m :: string
  deviceAddr_m :: int
  lastUpdate_m :: nat
  lastOutputState_m :: bool

text \<open>
  The driver's own \<open>asynUser\<close> (\<open>pasynUserSelf\<close> of the base class). It is never
  NULL; the sources do not read its \<open>reason\<close>.
\<close>

definition pasynUserSelf :: "asynUser option" where
  "pasynUserSelf = Some \<lparr>reason = P_Other 0\<rparr>"

text \<open>
  The parameter library of \<open>asynPortDriver\<close> belongs to the host. Every call the
  sources make stores a value under a parameter created with the matching type,
  which succeeds.
\<close>

definition setDoubleParam :: "param \<Rightarrow> double \<Rightarrow> controller \<Rightarrow> asynStatus \<times> controller" where
  "setDoubleParam p v c = (asynSuccess, c\<lparr>doubleParams := (doubleParams c)(p \<mapsto> v)\<rparr>)"

definition setIntegerParam :: "param \<Rightarrow> int \<Rightarrow> controller \<Rightarrow> asynStatus \<times> controller" where
  "setIntegerParam p v c = (asynSuccess, c\<lparr>intParams := (intParams c)(p \<mapsto> v)\<rparr>)"

definition setStringParam :: "param \<Rightarrow> string \<Rightarrow> controller \<Rightarrow> asynStatus \<times> controller" where
  "setStringParam p v c = (asynSuccess, c\<lparr>stringParams := (stringParams c)(p \<mapsto> v)\<rparr>)"

definition setParamAlarmStatus :: "param \<Rightarrow> int \<Rightarrow> controller \<Rightarrow> controller" where
  "setParamAlarmStatus p v c = c\<lparr>paramAlarmStatus := (paramAlarmStatus c)(p := v)\<rparr>"

definition setParamAlarmSeverity :: "param \<Rightarrow> int \<Rightarrow> controller \<Rightarrow> controller" where
  "setParamAlarmSeverity p v c = c\<lparr>paramAlarmSeverity := (paramAlarmSeverity c)(p := v)\<rparr>"

definition callParamCallbacks :: "controller \<Rightarrow> controller" where
  "callParamCallbacks c = c\<lparr>paramCallbacks := paramCallbacks c + 1\<rparr>"

section \<open>ThresholdLogicController.cpp\<close>

text \<open>
  \<open>asynPrint\<close> trace output is not part of the model. What the device
  transport and the thread library answer is an input of each function:
  the status of \<open>pasynOctetSyncIO->connect\<close>, the value the read computes
  (in the sources a simulated sine of the clock plus noise), the clock, and
  whether creating and starting the thread throws.
\<close>

definition readCurrentValueFromDevice ::
  "asynStatus \<Rightarrow> double \<Rightarrow> controller \<Rightarrow> asynStatus \<times> controller" where
  "readCurrentValueFromDevice connectStatus simulated c =
     (if connectStatus \<noteq> asynSuccess then (connectStatus, c)
      else
        (let c1 = c\<lparr>currentValue_m := simulated\<rparr>;
             c2 = (if dless (currentValue_m c1) (Finite (- 10)) \<or> dgt (currentValue_m c1) (Finite 10)
                   then c1\<lparr>currentValue_m :=
                            fmax (Finite (- 10)) (fmin (Finite 10) (currentValue_m c1))\<rparr>
                   else c1)
         in (asynSuccess, c2)))"

definition writeOutputStateToDevice :: "asynStatus \<Rightarrow> bool \<Rightarrow> controller \<Rightarrow> asynStatus" where
  "writeOutputStateToDevice connectStatus state c =
     (if connectStatus \<noteq> asynSuccess then connectStatus else asynSuccess)"

definition updateAlarmStatus :: "controller \<Rightarrow> controller" where
  "updateAlarmStatus c =
     (let (alarmSeverity, alarmStatus) =
            (if alarmStatus_m c = 0 then (0, 0)
             else if alarmStatus_m c = 1 then (1, 3)
             else if alarmStatus_m c = 2 then (2, 4)
             else if alarmStatus_m c = 3 then (3, 17)
             else (2, 17));
          c1 = setParamAlarmStatus P_CurrentValue alarmStatus c;
          c2 = setParamAlarmSeverity P_CurrentValue alarmSeverity c1;
          c3 = setParamAlarmStatus P_OutputState alarmStatus c2;
          c4 = setParamAlarmSeverity P_OutputState alarmSeverity c3;
          c5 = snd (setIntegerParam P_AlarmStatus (alarmStatus_m c4) c4);
          c6 = setParamAlarmStatus P_AlarmStatus alarmStatus c5
      in setParamAlarmSeverity P_AlarmStatus alarmSeverity c6)"

definition validateParameters :: "controller \<Rightarrow> bool \<times> controller" where
  "validateParameters c =
     (let v0 = True;
          v1 = (if dless (thresholdValue_m c) (Finite (- 10)) \<or> dgt (thresholdValue_m c) (Finite 10)
                then False else v0);
          v2 = (if dless (hysteresis_m c) (Finite 0) \<or> dgt (hysteresis_m c) (Finite 5)
                then False else v1);
          v4 = (if dless (updateRate_m c) lit_0_1 \<or> dgt (updateRate_m c) (Finite 1000)
                then False else v2);
          v5 = (if length (devicePortName_m c) = 0 then False
                else if length (devicePortName_m c) \<ge> 64 then False
                else v4);
          v6 = (if deviceAddr_m c < 0 \<or> deviceAddr_m c > 255 then False else v5);
          c8 = (if alarmStatus_m c < 0 \<or> alarmStatus_m c > 3
                then snd (setIntegerParam P_AlarmStatus 0 (c\<lparr>alarmStatus_m := 0\<rparr>))
                else c);
          v10 = (if enabled_m c8 \<and> monitorThread_m c8 = None then False else v6)
      in (v10, c8))"

text \<open>
  \<open>new epicsThread\<close> followed by \<open>start()\<close> either succeeds or throws a
  \<open>std::exception\<close> with the given \<open>what()\<close>; \<open>new\<close> never returns NULL.
\<close>

datatype threadOutcome = ThreadStarted | ThreadThrows string

definition startMonitoring ::
  "threadOutcome \<Rightarrow> controller \<Rightarrow> ErrorHandler \<Rightarrow> controller \<times> ErrorHandler" where
  "startMonitoring outcome c eh =
     (if threadRunning_m c then (c, eh)
      else
        (let c1 = c\<lparr>threadExit_m := False\<rparr>;
             c2 = (if dless (updateRate_m c1) lit_0_1 \<or> dgt (updateRate_m c1) (Finite 1000)
                   then snd (setDoubleParam P_UpdateRate (Finite 10) (c1\<lparr>updateRate_m := Finite 10\<rparr>))
                   else c1);
             threadName = take 63 (''ThresholdMonitor_'' @ portName_drv c2)
         in case outcome of
              ThreadStarted \<Rightarrow>
                (c2\<lparr>monitorThread_m := Some threadName, threadRunning_m := True\<rparr>, eh)
            | ThreadThrows what \<Rightarrow>
                (c2\<lparr>monitorThread_m := None, threadRunning_m := False\<rparr>,
                 snd (handleThreadError (Some ''startMonitoring'') (Some threadName) (Some what)
                        pasynUserSelf eh))))"

text \<open>
  Between setting the exit flag and deleting the thread object,
  \<open>stopMonitoring\<close> only sleeps (at most 50 times 100 ms) until the thread has
  cleared \<open>threadRunning_\<close>; then it resets both flags in every case.
\<close>

definition stopMonitoring :: "controller \<Rightarrow> controller" where
  "stopMonitoring c =
     (if \<not> threadRunning_m c then c
      else
        (let c1 = c\<lparr>threadExit_m := True\<rparr>;
             c2 = (if monitorThread_m c1 \<noteq> None then c1\<lparr>monitorThread_m := None\<rparr> else c1)
         in c2\<lparr>threadRunning_m := False, threadExit_m := False\<rparr>))"

text \<open>
  The end of \<open>writeFloat64\<close> and \<open>writeInt32\<close>: clients are notified only after
  a success. A \<open>return asynError\<close> inside a branch leaves at once, which is the
  same as reaching this end with that status.
\<close>

definition finishWrite ::
  "asynStatus \<times> controller \<times> ErrorHandler \<Rightarrow> asynStatus \<times> controller \<times> ErrorHandler" where
  "finishWrite r =
     (case r of (status, c, eh) \<Rightarrow>
        if status = asynSuccess then (status, callParamCallbacks c, eh) else (status, c, eh))"

text \<open>
  For a parameter the driver does not know, both write methods call the base
  class; its status is the input \<open>base\<close>.
\<close>

definition writeFloat64 ::
  "asynStatus \<Rightarrow> asynUser \<Rightarrow> double \<Rightarrow> controller \<Rightarrow> ErrorHandler
     \<Rightarrow> asynStatus \<times> controller \<times> ErrorHandler" where
  "writeFloat64 base pasynUser val c eh =
     (let function = reason pasynUser;
          functionName = Some ''writeFloat64''
      in finishWrite
        (if function = P_ThresholdValue then
           (let (ok, eh1) = validateParameter (Some ''thresholdValue'') val
                              (Finite (- 10)) (Finite 10) functionName eh
            in if \<not> ok
               then (asynError, c,
                     logError ERROR functionName (Some MsgThresholdOutOfRange) (Some pasynUser) eh1)
               else
                 (let eh2 = (if dless (fabs val) (hysteresis_m c)
                             then logError WARNING functionName
                                    (Some (MsgThresholdBelowHysteresis val (hysteresis_m c)))
                                    (Some pasynUser) eh1
                             else eh1);
                      c1 = c\<lparr>thresholdValue_m := val\<rparr>;
                      (status, c2) = setDoubleParam function val c1
                  in (status, c2, eh2)))
         else if function = P_Hysteresis then
           (let (ok, eh1) = validateParameter (Some ''hysteresis'') val
                              (Finite 0) (Finite 5) functionName eh
            in if \<not> ok
               then (asynError, c,
                     logError ERROR functionName (Some MsgHysteresisOutOfRange) (Some pasynUser) eh1)
               else
                 (let c1 = c\<lparr>hysteresis_m := val\<rparr>;
                      (status, c2) = setDoubleParam function val c1
                  in (status, c2, eh1)))
         else if function = P_UpdateRate then
           (let (ok, eh1) = validateParameter (Some ''updateRate'') val
                              lit_0_1 (Finite 1000) functionName eh
            in if \<not> ok
               then (asynError, c,
                     logError ERROR functionName (Some MsgUpdateRateOutOfRange) (Some pasynUser) eh1)
               else
                 (let c1 = c\<lparr>updateRate_m := val\<rparr>;
                      (status, c2) = setDoubleParam function val c1
                  in (status, c2, eh1)))
         else if function = P_CurrentValue then (asynError, c, eh)
         else (base, c, eh)))"

definition writeInt32 ::
  "asynStatus \<Rightarrow> threadOutcome \<Rightarrow> asynUser \<Rightarrow> int \<Rightarrow> controller \<Rightarrow> ErrorHandler
     \<Rightarrow> asynStatus \<times> controller \<times> ErrorHandler" where
  "writeInt32 base outcome pasynUser val0 c eh =
     (let function = reason pasynUser
      in finishWrite
        (if function = P_Enable then
           (let val = (if val0 \<noteq> 0 \<and> val0 \<noteq> 1 then (if val0 \<noteq> 0 then 1 else 0) else val0);
                newEnabled = (val \<noteq> 0)
            in if newEnabled \<noteq> enabled_m c then
                 (let (rejected, c1) =
                        (if newEnabled
                         then (let (ok, cv) = validateParameters c
                               in if \<not> ok then (True, cv)
                                  else if length (devicePortName_m cv) = 0 then (True, cv)
                                  else (False, cv))
                         else (False, c))
                  in if rejected then (asynError, c1, eh)
                     else
                       (let c2 = c1\<lparr>enabled_m := newEnabled\<rparr>;
                            (status, c3) = setIntegerParam function val c2;
                            (c4, eh1) = (if enabled_m c3 then startMonitoring outcome c3 eh
                                         else (stopMonitoring c3, eh))
                        in (status, c4, eh1)))
               else
                 (let (status, c1) = setIntegerParam function val c
                  in (status, c1, eh)))
         else if function = P_OutputState then (asynError, c, eh)
         else if function = P_AlarmStatus then (asynError, c, eh)
         else if function = P_DeviceAddr then
           (if val0 < 0 \<or> val0 > 255 then (asynError, c, eh)
            else if enabled_m c then (asynError, c, eh)
            else
              (let c1 = c\<lparr>deviceAddr_m := val0\<rparr>;
                   (status, c2) = setIntegerParam function val0 c1
               in (status, c2, eh)))
         else (base, c, eh)))"

text \<open>
  One monitor cycle. \<open>readConnect\<close> and \<open>writeConnect\<close> are the answers of the
  transport to the two connects, \<open>simulated\<close> the value the read computes and
  \<open>now\<close> the clock at the end of the cycle.
\<close>

definition processThresholdLogic ::
  "(real \<Rightarrow> double) \<Rightarrow> asynStatus \<Rightarrow> double \<Rightarrow> asynStatus \<Rightarrow> nat \<Rightarrow> controller \<Rightarrow> ErrorHandler
     \<Rightarrow> controller \<times> ErrorHandler" where
  "processThresholdLogic rnd readConnect simulated writeConnect now c0 eh0 =
     (let functionName = Some ''processThresholdLogic''
      in if \<not> enabled_m c0 then (c0, eh0)
         else
      let (status, c) = readCurrentValueFromDevice readConnect simulated c0
      in if status \<noteq> asynSuccess
         then
           (let eh1 = snd (handleCommunicationError functionName (Some (devicePortName_m c))
                             (deviceAddr_m c) (Some TxtReadCurrentValue) pasynUserSelf eh0);
                c1 = c\<lparr>alarmStatus_m := 2\<rparr>;
                eh2 = snd (setAlarmStatus pasynUserSelf COMM_ALARM MAJOR_ALARM eh1)
            in (updateAlarmStatus c1, eh2))
         else
      let newOutputState =
            (if \<not> outputState_m c
             then (if dgt (currentValue_m c) (thresholdValue_m c) then True else outputState_m c)
             else (let lowerThreshold = dsub rnd (thresholdValue_m c) (hysteresis_m c)
                   in if dless (currentValue_m c) lowerThreshold then False else outputState_m c));
          (c5, eh5) =
            (if newOutputState \<noteq> outputState_m c
             then
               (let c1 = c\<lparr>lastOutputState_m := outputState_m c\<rparr>;
                    c2 = c1\<lparr>outputState_m := newOutputState\<rparr>;
                    wstatus = writeOutputStateToDevice writeConnect (outputState_m c2) c2;
                    (c3, eh3) =
                      (if wstatus \<noteq> asynSuccess
                       then
                         (let eh1 = snd (handleCommunicationError functionName
                                           (Some (devicePortName_m c2)) (deviceAddr_m c2)
                                           (Some TxtSetOutputState) pasynUserSelf eh0);
                              c2a = c2\<lparr>alarmStatus_m := 2\<rparr>;
                              eh2 = snd (setAlarmStatus pasynUserSelf WRITE_ALARM MAJOR_ALARM eh1)
                          in (c2a, eh2))
                       else (c2\<lparr>alarmStatus_m := 0\<rparr>, eh0))
                in (snd (setIntegerParam P_OutputState (if outputState_m c3 then 1 else 0) c3), eh3))
             else
               (if alarmStatus_m c = 0 then (c, eh0) else (c\<lparr>alarmStatus_m := 0\<rparr>, eh0)));
          c6 = snd (setDoubleParam P_CurrentValue (currentValue_m c5) c5);
          c7 = snd (setIntegerParam P_AlarmStatus (alarmStatus_m c6) c6);
          c8 = snd (setIntegerParam P_CompareResult (if outputState_m c7 then 1 else 0) c7);
          c9 = c8\<lparr>lastUpdate_m := now\<rparr>;
          c10 = updateAlarmStatus c9
      in (callParamCallbacks c10, eh5))"

text \<open>
  \<open>validateConfigurationWithErrorHandler\<close> copies the members into a
  \<open>ThresholdConfig\<close> (at most 63 characters of each name) and logs what
  \<open>validateConfiguration\<close> reports.
\<close>

definition validateConfigurationWithErrorHandler ::
  "controller \<Rightarrow> ErrorHandler \<Rightarrow> bool \<times> ErrorHandler" where
  "validateConfigurationWithErrorHandler c eh =
     (let functionName = Some ''validateConfigurationWithErrorHandler'';
          config = \<lparr>portName = take 63 (portName_drv c),
                    devicePort = take 63 (devicePortName_m c),
                    deviceAddr = deviceAddr_m c,
                    updateRate = updateRate_m c,
                    priority = 50,
                    thresholdValue = thresholdValue_m c,
                    hysteresis = hysteresis_m c\<rparr>;
          (result, eh1) = validateConfiguration config eh
      in if \<not> isValid result
         then
           (let eh2 = logError (errorLevel result) functionName (Some (errorMessage result))
                        pasynUserSelf eh1;
                eh3 = (if suggestion result \<noteq> TxtEmpty
                       then logError INFO functionName (Some (suggestion result)) pasynUserSelf eh2
                       else eh2)
            in (False, eh3))
         else
           (let eh2 = (if errorLevel result = WARNING
                       then
                         (let eh2a = logError WARNING functionName (Some (errorMessage result))
                                       pasynUserSelf eh1
                          in if suggestion result \<noteq> TxtEmpty
                             then logError INFO functionName (Some (suggestion result))
                                    pasynUserSelf eh2a
                             else eh2a)
                       else eh1)
            in (True, eh2)))"

text \<open>
  The constructor. \<open>now\<close> is the clock; the parameter library starts empty,
  with no alarm on any parameter.
\<close>

definition ThresholdLogicController ::
  "string \<Rightarrow> string \<Rightarrow> int \<Rightarrow> nat \<Rightarrow> ErrorHandler \<Rightarrow> controller \<times> ErrorHandler" where
  "ThresholdLogicController pName dPort dAddr now eh =
     (let functionName = Some ''ThresholdLogicController'';
          c0 = \<lparr>portName_drv = pName,
                doubleParams = Map.empty, intParams = Map.empty, stringParams = Map.empty,
                paramAlarmStatus = (\<lambda>p. 0), paramAlarmSeverity = (\<lambda>p. 0),
                paramCallbacks = 0,
                monitorThread_m = None, threadRunning_m = False, threadExit_m = False,
                thresholdValue_m = Finite 0, currentValue_m = Finite 0,
                outputState_m = False, enabled_m = False,
                hysteresis_m = lit_0_1, updateRate_m = Finite 10,
                alarmStatus_m = 0,
                devicePortName_m = take 63 dPort, deviceAddr_m = dAddr,
                lastUpdate_m = now, lastOutputState_m = False\<rparr>;
          c1 = snd (setDoubleParam P_ThresholdValue (thresholdValue_m c0) c0);
          c2 = snd (setDoubleParam P_CurrentValue (currentValue_m c1) c1);
          c3 = snd (setIntegerParam P_OutputState (if outputState_m c2 then 1 else 0) c2);
          c4 = snd (setIntegerParam P_CompareResult (if outputState_m c3 then 1 else 0) c3);
          c5 = snd (setIntegerParam P_Enable (if enabled_m c4 then 1 else 0) c4);
          c6 = snd (setDoubleParam P_Hysteresis (hysteresis_m c5) c5);
          c7 = snd (setDoubleParam P_UpdateRate (updateRate_m c6) c6);
          c8 = snd (setIntegerParam P_AlarmStatus (alarmStatus_m c7) c7);
          c9 = snd (setStringParam P_DevicePort (devicePortName_m c8) c8);
          c10 = snd (setIntegerParam P_DeviceAddr (deviceAddr_m c9) c9);
          (ok, eh1) = validateConfigurationWithErrorHandler c10 eh;
          eh2 = (if \<not> ok
                 then logError WARNING functionName (Some MsgConfigWarning) pasynUserSelf eh1
                 else eh1);
          c11 = callParamCallbacks c10
      in (c11,
          logError INFO functionName (Some (MsgControllerCreated pName dPort dAddr))
            pasynUserSelf eh2))"

section \<open>Fixtures\<close>

text \<open>The counters as their static initialisers leave them, with nothing logged yet.\<close>

definition eh_initial :: ErrorHandler where
  "eh_initial = \<lparr>infoCount_m = 0, warningCount_m = 0, errorCount_m = 0, fatalCount_m = 0,
                  logged = []\<rparr>"

text \<open>
  For concrete inputs whose sums and differences are doubles themselves the
  rounding is the constructor \<open>Finite\<close>. A platform whose \<open>lrint\<close> answers 0
  where the language leaves the value open:
\<close>

definition lrint_invalid_zero :: "double \<Rightarrow> int" where
  "lrint_invalid_zero x = 0"

text \<open>
  A controller as the constructor builds it for port \<open>THRESHOLD1\<close> on device port
  \<open>DEV1\<close>, address 0; the same after threshold 2.0 V and hysteresis 0.5 V have
  been written; after Enable has been written with 1 and the thread has started;
  and after a first cycle has read 2.5 V and driven the output high.
\<close>

definition ctl_created :: controller where
  "ctl_created = fst (ThresholdLogicController ''THRESHOLD1'' ''DEV1'' 0 0 eh_initial)"

definition ctl_configured :: controller where
  "ctl_configured =
     fst (snd (writeFloat64 asynError \<lparr>reason = P_Hysteresis\<rparr> (Finite (1 / 2))
       (fst (snd (writeFloat64 asynError \<lparr>reason = P_ThresholdValue\<rparr> (Finite 2)
          ctl_created eh_initial)))
       eh_initial))"

definition ctl_running :: controller where
  "ctl_running =
     fst (snd (writeInt32 asynError ThreadStarted \<lparr>reason = P_Enable\<rparr> 1 ctl_configured eh_initial))"

definition ctl_high :: controller where
  "ctl_high =
     fst (processThresholdLogic Finite asynSuccess (Finite (5 / 2)) asynSuccess 1
            ctl_running eh_initial)"

text \<open>A controller constructed with an empty device port name.\<close>

definition ctl_no_port :: controller where
  "ctl_no_port = fst (ThresholdLogicController ''THRESHOLD1'' [] 0 0 eh_initial)"

text \<open>A configuration in which every field is inside its range.\<close>

definition cfg_example :: ThresholdConfig where
  "cfg_example = \<lparr>portName = ''THRESHOLD1'', devicePort = ''DEV1'', deviceAddr = 0,
                   updateRate = Finite 10, priority = 50,
                   thresholdValue = Finite 2, hysteresis = Finite (1 / 2)\<rparr>"

section \<open>Facts about doubles\<close>

lemma dle_refl_iff: "dle x x = (\<not> isnan x)"
  by (cases x) simp_all

lemma dless_imp_not_dle: "dless x y \<Longrightarrow> \<not> dle y x"
  by (cases x; cases y) simp_all

lemma dless_imp_not_nan: "dless x y \<Longrightarrow> \<not> isnan x"
  by (cases x; cases y) simp_all

lemma rint_of_int: "rint (of_int n) = n"
  by (simp add: rint_def)

lemma lrint_int_of_int:
  "- (2 ^ 31) \<le> p \<Longrightarrow> p \<le> 2 ^ 31 - 1 \<Longrightarrow> lrint_int unspec (Finite (of_int p)) = p"
  by (simp add: rint_of_int)

section \<open>The stateless comparison (ThresholdCompare.cpp)\<close>

lemma compare_vala_eq: "compare_vala rnd unspec A B C D = Some (compare_out rnd unspec A B C D)"
  by (simp add: compare_vala_def thresholdCompare_def aSub_def deref_or_zero_def Let_def)

text \<open>
  Claim C2, as stated, fails: with hysteresis 0 the sample
  \<open>threshold - hysteresis\<close> equals \<open>threshold + hysteresis\<close>, the first test
  \<open>A >= B + C\<close> succeeds and the output is 1, not 0. Here threshold 2.0,
  hysteresis 0.0, previous output 1 (all sums and differences exact). And with a
  NaN threshold no comparison succeeds, so \<open>compare(B + C, B, C, 0)\<close> keeps the
  previous output 0.
\<close>

theorem C2_compare_counterexample:
  "compare_vala Finite lrint_invalid_zero
     (dsub Finite (Finite 2) (Finite 0)) (Finite 2) (Finite 0) (Finite 1) = Some 1 \<and>
   compare_vala Finite lrint_invalid_zero
     (dadd Finite NaN (Finite 0)) NaN (Finite 0) (Finite 0) = Some 0"
  by (simp add: compare_vala_eq compare_out_def dge_def dsub_def rint_def)

text \<open>
  Claim C2, amended: \<open>thresholdCompare\<close> writes 1 if \<open>A >= B + C\<close>, otherwise 0
  if \<open>A <= B - C\<close>, otherwise the previous output \<open>D\<close> rounded to an int, which
  is \<open>D\<close> itself when \<open>D\<close> holds an int. Consequently
  \<open>compare(B + C, B, C, 0) = 1\<close> whenever \<open>B + C\<close> is not a NaN, and
  \<open>compare(B - C, B, C, 1) = 0\<close> whenever the computed \<open>B - C\<close> is strictly
  below the computed \<open>B + C\<close>.
\<close>

theorem C2_compare_amended:
  "compare_vala rnd unspec A B C D =
     Some (if dge A (dadd rnd B C) then 1
           else if dle A (dsub rnd B C) then 0
           else lrint_int unspec D) \<and>
   (- (2 ^ 31) \<le> p \<and> p \<le> 2 ^ 31 - 1 \<longrightarrow> lrint_int unspec (Finite (of_int p)) = p) \<and>
   (\<not> isnan (dadd rnd B C) \<longrightarrow> compare_vala rnd unspec (dadd rnd B C) B C (Finite 0) = Some 1) \<and>
   (dless (dsub rnd B C) (dadd rnd B C) \<longrightarrow>
      compare_vala rnd unspec (dsub rnd B C) B C (Finite 1) = Some 0)"
proof (intro conjI impI)
  show "compare_vala rnd unspec A B C D =
     Some (if dge A (dadd rnd B C) then 1
           else if dle A (dsub rnd B C) then 0
           else lrint_int unspec D)"
    by (simp add: compare_vala_eq compare_out_def)
  show "lrint_int unspec (Finite (of_int p)) = p" if "- (2 ^ 31) \<le> p \<and> p \<le> 2 ^ 31 - 1"
    using that by (simp add: rint_of_int)
  show "compare_vala rnd unspec (dadd rnd B C) B C (Finite 0) = Some 1"
    if "\<not> isnan (dadd rnd B C)"
    using that by (simp add: compare_vala_eq compare_out_def dge_def dle_refl_iff)
  show "compare_vala rnd unspec (dsub rnd B C) B C (Finite 1) = Some 0"
    if "dless (dsub rnd B C) (dadd rnd B C)"
    using that dless_imp_not_dle [OF that] dless_imp_not_nan [OF that]
    by (simp add: compare_vala_eq compare_out_def dge_def dle_refl_iff)
qed

theorem C2_compare_amended_witness:
  "(- (2 ^ 31) \<le> (1::int) \<and> (1::int) \<le> 2 ^ 31 - 1) \<and>
   lrint_int lrint_invalid_zero (Finite (of_int 1)) = 1 \<and>
   \<not> isnan (dadd Finite (Finite 2) (Finite (1 / 2))) \<and>
   compare_vala Finite lrint_invalid_zero
     (dadd Finite (Finite 2) (Finite (1 / 2))) (Finite 2) (Finite (1 / 2)) (Finite 0) = Some 1 \<and>
   dless (dsub Finite (Finite 2) (Finite (1 / 2))) (dadd Finite (Finite 2) (Finite (1 / 2))) \<and>
   compare_vala Finite lrint_invalid_zero
     (dsub Finite (Finite 2) (Finite (1 / 2))) (Finite 2) (Finite (1 / 2)) (Finite 1) = Some 0"
  using C2_compare_amended [where rnd = Finite and unspec = lrint_invalid_zero
      and B = "Finite 2" and C = "Finite (1 / 2)" and p = 1]
  by (simp add: dsub_def dge_def rint_def)

section \<open>Facts about the ErrorHandler functions\<close>

lemma logError_Some:
  "logError level (Some s) (Some m) u eh =
     (case level of
        INFO \<Rightarrow> eh\<lparr>infoCount_m := infoCount_m eh + 1, logged := logged eh @ [(level, s, m)]\<rparr>
      | WARNING \<Rightarrow> eh\<lparr>warningCount_m := warningCount_m eh + 1, logged := logged eh @ [(level, s, m)]\<rparr>
      | ERROR \<Rightarrow> eh\<lparr>errorCount_m := errorCount_m eh + 1, logged := logged eh @ [(level, s, m)]\<rparr>
      | FATAL \<Rightarrow> eh\<lparr>fatalCount_m := fatalCount_m eh + 1, logged := logged eh @ [(level, s, m)]\<rparr>)"
  by (cases level) (simp_all add: logError_def internalLog_def)

lemma validateStringParameter_required:
  "validateStringParameter (Some n) (Some v) m False (Some s) eh =
     (if v = [] then (False, logError WARNING (Some s) (Some (MsgStringEmpty n)) None eh)
      else if m \<le> length v
      then (False, logError WARNING (Some s) (Some (MsgStringTooLong n (length v) (m - 1))) None eh)
      else (True, eh))"
  by (simp add: validateStringParameter_def)

lemma validateParameter_rejects:
  "isnan v \<or> isinf v \<or> dless v lo \<or> dgt v hi \<Longrightarrow>
   fst (validateParameter (Some n) v lo hi (Some s) eh) = False"
  by (auto simp add: validateParameter_def)

lemma sint_succ: "sint (x :: 32 word) < 2 ^ 31 - 1 \<Longrightarrow> sint (x + 1) = sint x + 1"
proof -
  assume a: "sint x < 2 ^ 31 - 1"
  have b: "- (2 ^ 31) \<le> sint x"
    using sint_ge [of x] by simp
  show ?thesis
    using a b by (simp add: sint_word_ariths signed_take_bit_int_eq_self)
qed

section \<open>validateConfiguration\<close>

text \<open>
  Claim C3 says that a configuration whose only out-of-range field is the thread
  priority is still reported as valid. The code does go on to the remaining
  fields, but it has set \<open>isValid\<close> to false in the priority branch and never
  sets it back: for priority 100 with every other field in range (threshold 2.0,
  hysteresis 0.5) the result is \<open>isValid = false\<close> at level WARNING.
\<close>

theorem C3_priority_only_reported_invalid:
  "fst (validateConfiguration (cfg_example\<lparr>priority := 100\<rparr>) eh_initial) =
     \<lparr>isValid = False, errorLevel = WARNING,
      errorMessage = MsgPriorityRange, suggestion = SugPriorityRange\<rparr>"
  by (simp add: validateConfiguration_def cfg_example_def eh_initial_def Let_def
      validateStringParameter_required validateIntParameter_def validateParameter_def
      logError_Some lit_0_1_def dgt_def)

text \<open>
  The sibling warning of the same function, hysteresis above the absolute
  threshold, sets \<open>isValid\<close> back to true, also when the priority branch had
  cleared it: the same configuration with hysteresis 3.0 is reported valid.
\<close>

lemma priority_and_relationship_reported_valid:
  "fst (validateConfiguration (cfg_example\<lparr>priority := 100, hysteresis := Finite 3\<rparr>) eh_initial) =
     \<lparr>isValid = True, errorLevel = WARNING,
      errorMessage = MsgHysteresisAboveThreshold, suggestion = SugHysteresisBelowThreshold\<rparr>"
  by (simp add: validateConfiguration_def cfg_example_def eh_initial_def Let_def
      validateStringParameter_required validateIntParameter_def validateParameter_def
      logError_Some lit_0_1_def dgt_def)

text \<open>
  Claim C4, as stated, fails: \<open>validateStringParameter\<close> looks at the length
  only. A port name and a device port name with hyphens, blanks, slashes and an
  exclamation mark are reported valid.
\<close>

theorem C4_charset_counterexample:
  "fst (validateConfiguration
          (cfg_example\<lparr>portName := ''a-b c!'', devicePort := ''/dev/tty 0''\<rparr>) eh_initial) =
     \<lparr>isValid = True, errorLevel = INFO,
      errorMessage = MsgConfigValid, suggestion = TxtEmpty\<rparr>"
  by (simp add: validateConfiguration_def cfg_example_def eh_initial_def Let_def
      validateStringParameter_required validateIntParameter_def validateParameter_def
      logError_Some lit_0_1_def dgt_def)

text \<open>
  Claim C4, amended: \<open>validateConfiguration\<close> reports a configuration as invalid,
  at level ERROR, whenever \<open>portName\<close> or \<open>devicePort\<close> is empty or 64 or more
  characters long. It makes no check of the characters: replacing both names by
  any other names of 1 to 63 characters changes neither the result nor what
  is logged.
\<close>

theorem C4_names_amended:
  "(portName config = [] \<or> 64 \<le> length (portName config) \<or>
    devicePort config = [] \<or> 64 \<le> length (devicePort config) \<longrightarrow>
      \<not> isValid (fst (validateConfiguration config eh)) \<and>
      errorLevel (fst (validateConfiguration config eh)) = ERROR) \<and>
   (portName config \<noteq> [] \<and> length (portName config) < 64 \<and>
    devicePort config \<noteq> [] \<and> length (devicePort config) < 64 \<and>
    pn \<noteq> [] \<and> length pn < 64 \<and> dp \<noteq> [] \<and> length dp < 64 \<longrightarrow>
      validateConfiguration (config\<lparr>portName := pn, devicePort := dp\<rparr>) eh =
      validateConfiguration config eh)"
proof (intro conjI impI)
  assume "portName config = [] \<or> 64 \<le> length (portName config) \<or>
    devicePort config = [] \<or> 64 \<le> length (devicePort config)"
  then show "\<not> isValid (fst (validateConfiguration config eh))"
    by (auto simp add: validateConfiguration_def validateStringParameter_required Let_def)
next
  assume "portName config = [] \<or> 64 \<le> length (portName config) \<or>
    devicePort config = [] \<or> 64 \<le> length (devicePort config)"
  then show "errorLevel (fst (validateConfiguration config eh)) = ERROR"
    by (auto simp add: validateConfiguration_def validateStringParameter_required Let_def)
next
  assume "portName config \<noteq> [] \<and> length (portName config) < 64 \<and>
    devicePort config \<noteq> [] \<and> length (devicePort config) < 64 \<and>
    pn \<noteq> [] \<and> length pn < 64 \<and> dp \<noteq> [] \<and> length dp < 64"
  then show "validateConfiguration (config\<lparr>portName := pn, devicePort := dp\<rparr>) eh =
      validateConfiguration config eh"
    by (simp add: validateConfiguration_def validateStringParameter_required Let_def
        cong del: if_weak_cong)
qed

theorem C4_names_amended_witness:
  "devicePort (cfg_example\<lparr>devicePort := []\<rparr>) = [] \<and>
   \<not> isValid (fst (validateConfiguration (cfg_example\<lparr>devicePort := []\<rparr>) eh_initial)) \<and>
   errorLevel (fst (validateConfiguration (cfg_example\<lparr>devicePort := []\<rparr>) eh_initial)) = ERROR \<and>
   portName cfg_example \<noteq> [] \<and> length (portName cfg_example) < 64 \<and>
   devicePort cfg_example \<noteq> [] \<and> length (devicePort cfg_example) < 64 \<and>
   validateConfiguration (cfg_example\<lparr>portName := ''a-b c!'', devicePort := ''/dev/tty 0''\<rparr>) eh_initial =
     validateConfiguration cfg_example eh_initial"
  using C4_names_amended [where config = "cfg_example\<lparr>devicePort := []\<rparr>" and eh = eh_initial
      and pn = "''x''" and dp = "''x''"]
    C4_names_amended [where config = cfg_example and eh = eh_initial
      and pn = "''a-b c!''" and dp = "''/dev/tty 0''"]
  by (simp add: cfg_example_def)

text \<open>
  Claim C9: for every configuration with an empty \<open>portName\<close>,
  \<open>validateConfiguration\<close> returns \<open>isValid = false\<close> at level ERROR and evaluates
  no later field. The result and the log are the same whatever the other fields
  hold: the only line logged is the warning of the \<open>portName\<close> check itself.
\<close>

theorem C9_empty_portName_short_circuit:
  "portName config = [] \<Longrightarrow>
   validateConfiguration config eh =
     (\<lparr>isValid = False, errorLevel = ERROR,
       errorMessage = MsgPortNameInvalid, suggestion = SugPortNameCharset\<rparr>,
      eh\<lparr>warningCount_m := warningCount_m eh + 1,
         logged := logged eh @
           [(WARNING, ''ErrorHandler::validateConfiguration'', MsgStringEmpty ''portName'')]\<rparr>)"
  by (simp add: validateConfiguration_def validateStringParameter_required logError_Some Let_def)

theorem C9_empty_portName_short_circuit_witness:
  "portName (cfg_example\<lparr>portName := [], deviceAddr := 300, hysteresis := NaN\<rparr>) = [] \<and>
   validateConfiguration (cfg_example\<lparr>portName := [], deviceAddr := 300, hysteresis := NaN\<rparr>)
       eh_initial =
     (\<lparr>isValid = False, errorLevel = ERROR,
       errorMessage = MsgPortNameInvalid, suggestion = SugPortNameCharset\<rparr>,
      eh_initial\<lparr>warningCount_m := 1,
         logged := [(WARNING, ''ErrorHandler::validateConfiguration'', MsgStringEmpty ''portName'')]\<rparr>)"
  using C9_empty_portName_short_circuit
    [of "cfg_example\<lparr>portName := [], deviceAddr := 300, hysteresis := NaN\<rparr>" eh_initial]
  by (simp add: eh_initial_def)

section \<open>handleRuntimeError\<close>

text \<open>
  Claim C5: \<open>handleRuntimeError\<close> called (with a source that is not NULL) for
  the kind \<open>DEVICE_COMMUNICATION_FAILURE\<close> returns recoverable = true; it logs
  one line at level ERROR and adds one to the ERROR counter; the other three
  counters keep their values. The function is total: no path throws. The same
  holds for \<open>DEVICE_COMMUNICATION\<close>, the spelling in the code's own table.
  The counter is a 32-bit int; below \<open>INT_MAX\<close> its value grows by exactly one.
\<close>

theorem C5_classify_device_communication:
  "handleRuntimeError (Some source) (Some ''DEVICE_COMMUNICATION_FAILURE'') code pasynUser eh =
     (True, eh\<lparr>errorCount_m := errorCount_m eh + 1,
               logged := logged eh @
                 [(ERROR, source, MsgRuntimeError ''DEVICE_COMMUNICATION_FAILURE'' code)]\<rparr>) \<and>
   handleRuntimeError (Some source) (Some ''DEVICE_COMMUNICATION'') code pasynUser eh =
     (True, eh\<lparr>errorCount_m := errorCount_m eh + 1,
               logged := logged eh @ [(ERROR, source, MsgDeviceCommunication)]\<rparr>) \<and>
   (sint (errorCount_m eh) < 2 ^ 31 - 1 \<longrightarrow>
      sint (errorCount_m eh + 1) = sint (errorCount_m eh) + 1)"
  by (simp add: handleRuntimeError_def logError_Some Let_def sint_succ)

theorem C5_classify_device_communication_witness:
  "sint (errorCount_m eh_initial) < 2 ^ 31 - 1 \<and>
   handleRuntimeError (Some ''processThresholdLogic'') (Some ''DEVICE_COMMUNICATION_FAILURE'')
       1 None eh_initial =
     (True, eh_initial\<lparr>errorCount_m := 1,
        logged := [(ERROR, ''processThresholdLogic'',
                    MsgRuntimeError ''DEVICE_COMMUNICATION_FAILURE'' 1)]\<rparr>) \<and>
   sint (errorCount_m eh_initial + 1) = 1"
  using C5_classify_device_communication [of "''processThresholdLogic''" 1 None eh_initial]
  by (simp add: eh_initial_def)

section \<open>Facts about the controller functions\<close>

lemma dle_imp_not_dless: "dle x y \<Longrightarrow> \<not> dless y x"
  by (cases x; cases y) simp_all

lemma validateParameters_state:
  "enabled_m (snd (validateParameters c)) = enabled_m c \<and>
   threadRunning_m (snd (validateParameters c)) = threadRunning_m c \<and>
   monitorThread_m (snd (validateParameters c)) = monitorThread_m c \<and>
   devicePortName_m (snd (validateParameters c)) = devicePortName_m c"
  by (simp add: validateParameters_def Let_def setIntegerParam_def)

lemma validateParameters_empty_port:
  "devicePortName_m c = [] \<Longrightarrow> \<not> fst (validateParameters c)"
  by (simp add: validateParameters_def Let_def)

lemma validateParameters_port:
  "fst (validateParameters c) \<Longrightarrow> devicePortName_m c \<noteq> []"
  using validateParameters_empty_port by blast

lemma updateAlarmStatus_fields:
  "outputState_m (updateAlarmStatus c) = outputState_m c \<and>
   lastOutputState_m (updateAlarmStatus c) = lastOutputState_m c \<and>
   currentValue_m (updateAlarmStatus c) = currentValue_m c \<and>
   thresholdValue_m (updateAlarmStatus c) = thresholdValue_m c \<and>
   hysteresis_m (updateAlarmStatus c) = hysteresis_m c \<and>
   alarmStatus_m (updateAlarmStatus c) = alarmStatus_m c \<and>
   intParams (updateAlarmStatus c) = (intParams c)(P_AlarmStatus \<mapsto> alarmStatus_m c)"
  by (simp add: updateAlarmStatus_def Let_def split_beta setParamAlarmStatus_def
      setParamAlarmSeverity_def setIntegerParam_def)

lemma updateAlarmStatus_major:
  "alarmStatus_m c = 2 \<Longrightarrow> paramAlarmSeverity (updateAlarmStatus c) P_OutputState = 2"
  by (simp add: updateAlarmStatus_def Let_def setParamAlarmStatus_def
      setParamAlarmSeverity_def setIntegerParam_def)

text \<open>
  The cycle of an enabled controller after a successful read: \<open>new\<close> is the
  decision of the cycle, \<open>c1\<close> the controller after the read.
\<close>

lemma process_decision:
  fixes c :: controller and simulated :: double and rnd :: "real \<Rightarrow> double"
    and writeConnect :: asynStatus and now :: nat and eh :: ErrorHandler
  assumes "enabled_m c"
  defines "c1 \<equiv> snd (readCurrentValueFromDevice asynSuccess simulated c)"
  defines "new \<equiv>
    (if outputState_m c
     then \<not> dless (currentValue_m c1) (dsub rnd (thresholdValue_m c) (hysteresis_m c))
     else dgt (currentValue_m c1) (thresholdValue_m c))"
  defines "r \<equiv> processThresholdLogic rnd asynSuccess simulated writeConnect now c eh"
  shows "outputState_m (fst r) = new"
    and "currentValue_m (fst r) = currentValue_m c1"
    and "new \<noteq> outputState_m c \<Longrightarrow> lastOutputState_m (fst r) = outputState_m c"
    and "new \<noteq> outputState_m c \<Longrightarrow>
           intParams (fst r) P_OutputState = Some (if new then 1 else 0)"
    and "new \<noteq> outputState_m c \<Longrightarrow> writeConnect \<noteq> asynSuccess \<Longrightarrow> alarmStatus_m (fst r) = 2"
    and "new \<noteq> outputState_m c \<Longrightarrow> writeConnect \<noteq> asynSuccess \<Longrightarrow>
           paramAlarmSeverity (fst r) P_OutputState = 2"
    and "new \<noteq> outputState_m c \<Longrightarrow> writeConnect \<noteq> asynSuccess \<Longrightarrow>
           snd r = snd (setAlarmStatus pasynUserSelf WRITE_ALARM MAJOR_ALARM
                     (snd (handleCommunicationError (Some ''processThresholdLogic'')
                        (Some (devicePortName_m c)) (deviceAddr_m c) (Some TxtSetOutputState)
                        pasynUserSelf eh)))"
proof -
  have rd: "readCurrentValueFromDevice asynSuccess simulated c = (asynSuccess, c1)"
    and f: "outputState_m c1 = outputState_m c" "thresholdValue_m c1 = thresholdValue_m c"
      "hysteresis_m c1 = hysteresis_m c" "enabled_m c1 = enabled_m c"
      "devicePortName_m c1 = devicePortName_m c" "deviceAddr_m c1 = deviceAddr_m c"
    by (simp_all add: c1_def readCurrentValueFromDevice_def Let_def)
  note defs = r_def new_def processThresholdLogic_def rd Let_def split_beta
    updateAlarmStatus_fields callParamCallbacks_def setIntegerParam_def setDoubleParam_def
    writeOutputStateToDevice_def
  show "outputState_m (fst r) = new"
    using assms(1) f by (simp add: defs)
  show "currentValue_m (fst r) = currentValue_m c1"
    using assms(1) f by (simp add: defs)
  show "lastOutputState_m (fst r) = outputState_m c" if "new \<noteq> outputState_m c"
    using assms(1) f that by (simp add: defs split: if_splits)
  show "intParams (fst r) P_OutputState = Some (if new then 1 else 0)"
    if "new \<noteq> outputState_m c"
    using assms(1) f that by (simp add: defs split: if_splits)
  show "alarmStatus_m (fst r) = 2" if "new \<noteq> outputState_m c" "writeConnect \<noteq> asynSuccess"
    using assms(1) f that by (simp add: defs split: if_splits)
  show "paramAlarmSeverity (fst r) P_OutputState = 2"
    if "new \<noteq> outputState_m c" "writeConnect \<noteq> asynSuccess"
    using assms(1) f that
    by (simp add: r_def new_def processThresholdLogic_def rd Let_def split_beta
        updateAlarmStatus_major callParamCallbacks_def setIntegerParam_def setDoubleParam_def
        writeOutputStateToDevice_def split: if_splits)
  show "snd r = snd (setAlarmStatus pasynUserSelf WRITE_ALARM MAJOR_ALARM
                     (snd (handleCommunicationError (Some ''processThresholdLogic'')
                        (Some (devicePortName_m c)) (deviceAddr_m c) (Some TxtSetOutputState)
                        pasynUserSelf eh)))"
    if "new \<noteq> outputState_m c" "writeConnect \<noteq> asynSuccess"
    using assms(1) f that
    by (simp add: r_def new_def processThresholdLogic_def rd Let_def split_beta
        writeOutputStateToDevice_def split: if_splits)
qed

lemma write_failure_log:
  "logged (snd (setAlarmStatus pasynUserSelf WRITE_ALARM MAJOR_ALARM
             (snd (handleCommunicationError (Some src) (Some port) addr (Some TxtSetOutputState)
                pasynUserSelf eh)))) =
   logged eh @
     [(ERROR, src, MsgCommError port addr TxtSetOutputState),
      (ERROR, ''ErrorHandler::setAlarmStatus'', MsgAlarmSet COMM_ALARM MAJOR_ALARM),
      (ERROR, ''ErrorHandler::setAlarmStatus'', MsgAlarmSet WRITE_ALARM MAJOR_ALARM)]"
  by (simp add: setAlarmStatus_def handleCommunicationError_def pasynUserSelf_def
      logError_Some Let_def)

section \<open>Facts about the fixtures\<close>

lemma ctl_created_fields:
  "\<not> enabled_m ctl_created" "\<not> outputState_m ctl_created"
  "thresholdValue_m ctl_created = Finite 0" "hysteresis_m ctl_created = lit_0_1"
  "updateRate_m ctl_created = Finite 10" "devicePortName_m ctl_created = ''DEV1''"
  "deviceAddr_m ctl_created = 0" "alarmStatus_m ctl_created = 0"
  "monitorThread_m ctl_created = None" "\<not> threadRunning_m ctl_created"
  "portName_drv ctl_created = ''THRESHOLD1''"
  by (simp_all add: ctl_created_def ThresholdLogicController_def Let_def split_beta
      setDoubleParam_def setIntegerParam_def setStringParam_def callParamCallbacks_def)

lemma ctl_configured_fields:
  "\<not> enabled_m ctl_configured" "\<not> outputState_m ctl_configured"
  "thresholdValue_m ctl_configured = Finite 2" "hysteresis_m ctl_configured = Finite (1 / 2)"
  "updateRate_m ctl_configured = Finite 10" "devicePortName_m ctl_configured = ''DEV1''"
  "deviceAddr_m ctl_configured = 0" "alarmStatus_m ctl_configured = 0"
  "monitorThread_m ctl_configured = None" "\<not> threadRunning_m ctl_configured"
  "portName_drv ctl_configured = ''THRESHOLD1''"
  by (simp_all add: ctl_configured_def writeFloat64_def finishWrite_def Let_def split_beta
      validateParameter_def dgt_def setDoubleParam_def callParamCallbacks_def ctl_created_fields)

lemma ctl_configured_valid: "fst (validateParameters ctl_configured)"
  by (simp add: validateParameters_def Let_def ctl_configured_fields dgt_def lit_0_1_def)

lemma ctl_running_fields:
  "enabled_m ctl_running" "\<not> outputState_m ctl_running"
  "thresholdValue_m ctl_running = Finite 2" "hysteresis_m ctl_running = Finite (1 / 2)"
  "devicePortName_m ctl_running = ''DEV1''"
  "deviceAddr_m ctl_running = 0" "alarmStatus_m ctl_running = 0"
  "threadRunning_m ctl_running"
  using ctl_configured_valid
  by (simp_all add: ctl_running_def writeInt32_def finishWrite_def Let_def split_beta
      validateParameters_def setIntegerParam_def startMonitoring_def callParamCallbacks_def
      ctl_configured_fields dgt_def lit_0_1_def)

lemma ctl_high_fields:
  "enabled_m ctl_high" "outputState_m ctl_high"
  "thresholdValue_m ctl_high = Finite 2" "hysteresis_m ctl_high = Finite (1 / 2)"
  "devicePortName_m ctl_high = ''DEV1''"
  "deviceAddr_m ctl_high = 0" "alarmStatus_m ctl_high = 0"
  by (simp_all add: ctl_high_def processThresholdLogic_def readCurrentValueFromDevice_def
      Let_def split_beta writeOutputStateToDevice_def updateAlarmStatus_def
      setParamAlarmStatus_def setParamAlarmSeverity_def
      setIntegerParam_def setDoubleParam_def callParamCallbacks_def
      ctl_running_fields dgt_def)

lemma ctl_no_port_fields:
  "\<not> enabled_m ctl_no_port" "devicePortName_m ctl_no_port = []"
  "monitorThread_m ctl_no_port = None" "\<not> threadRunning_m ctl_no_port"
  by (simp_all add: ctl_no_port_def ThresholdLogicController_def Let_def split_beta
      setDoubleParam_def setIntegerParam_def setStringParam_def callParamCallbacks_def)

lemma read_sample:
  "currentValue_m (snd (readCurrentValueFromDevice asynSuccess (Finite x) c)) =
     (if x < - 10 \<or> 10 < x then fmax (Finite (- 10)) (fmin (Finite 10) (Finite x)) else Finite x)"
  by (simp add: readCurrentValueFromDevice_def Let_def dgt_def)

section \<open>The monitor cycle\<close>

text \<open>
  Claim C1: in a cycle of an enabled controller whose read succeeds, with
  \<open>sample\<close> the value the read stores: when the output was false it becomes
  true if and only if \<open>sample > threshold\<close> (the bare threshold); when it was
  true it becomes false if and only if \<open>sample < threshold - hysteresis\<close>; for
  every sample in the dead-band from \<open>threshold - hysteresis\<close> to \<open>threshold\<close>
  the output is unchanged. Whether the device write then succeeds does not
  matter.
\<close>

theorem C1_hysteresis_decision:
  fixes c :: controller and simulated :: double and rnd :: "real \<Rightarrow> double"
    and writeConnect :: asynStatus and now :: nat and eh :: ErrorHandler
  assumes "enabled_m c"
  defines "sample \<equiv> currentValue_m (snd (readCurrentValueFromDevice asynSuccess simulated c))"
  defines "c' \<equiv> fst (processThresholdLogic rnd asynSuccess simulated writeConnect now c eh)"
  shows "currentValue_m c' = sample \<and>
    (\<not> outputState_m c \<longrightarrow> outputState_m c' = dgt sample (thresholdValue_m c)) \<and>
    (outputState_m c \<longrightarrow>
       (\<not> outputState_m c') = dless sample (dsub rnd (thresholdValue_m c) (hysteresis_m c))) \<and>
    (dle (dsub rnd (thresholdValue_m c) (hysteresis_m c)) sample \<and>
     dle sample (thresholdValue_m c) \<longrightarrow> outputState_m c' = outputState_m c)"
proof -
  have o: "outputState_m c' =
      (if outputState_m c
       then \<not> dless sample (dsub rnd (thresholdValue_m c) (hysteresis_m c))
       else dgt sample (thresholdValue_m c))"
    and v: "currentValue_m c' = sample"
    unfolding c'_def sample_def
    using process_decision(1,2) [OF assms(1)] by simp_all
  have d: "outputState_m c' = outputState_m c"
    if "dle (dsub rnd (thresholdValue_m c) (hysteresis_m c)) sample"
      and "dle sample (thresholdValue_m c)"
    using o dle_imp_not_dless [OF that(1)] dle_imp_not_dless [OF that(2)]
    by (simp add: dgt_def)
  show ?thesis
    using o v d by auto
qed

theorem C1_hysteresis_decision_witness:
  "enabled_m ctl_running \<and> \<not> outputState_m ctl_running \<and>
   \<not> outputState_m
       (fst (processThresholdLogic Finite asynSuccess (Finite 1) asynSuccess 1 ctl_running eh_initial)) \<and>
   outputState_m
       (fst (processThresholdLogic Finite asynSuccess (Finite (5 / 2)) asynSuccess 1 ctl_running eh_initial)) \<and>
   enabled_m ctl_high \<and> outputState_m ctl_high \<and>
   outputState_m
       (fst (processThresholdLogic Finite asynSuccess (Finite (9 / 5)) asynSuccess 2 ctl_high eh_initial)) \<and>
   \<not> outputState_m
       (fst (processThresholdLogic Finite asynSuccess (Finite (7 / 5)) asynSuccess 3 ctl_high eh_initial))"
  using
    C1_hysteresis_decision [where c = ctl_running and simulated = "Finite 1" and rnd = Finite
      and writeConnect = asynSuccess and now = 1 and eh = eh_initial]
    C1_hysteresis_decision [where c = ctl_running and simulated = "Finite (5 / 2)" and rnd = Finite
      and writeConnect = asynSuccess and now = 1 and eh = eh_initial]
    C1_hysteresis_decision [where c = ctl_high and simulated = "Finite (9 / 5)" and rnd = Finite
      and writeConnect = asynSuccess and now = 2 and eh = eh_initial]
    C1_hysteresis_decision [where c = ctl_high and simulated = "Finite (7 / 5)" and rnd = Finite
      and writeConnect = asynSuccess and now = 3 and eh = eh_initial]
  by (simp add: ctl_running_fields ctl_high_fields read_sample dgt_def dsub_def)

text \<open>
  Claim C8: when the decision of a cycle changes the output and the device
  write that follows fails, \<open>outputState_\<close> holds the new value at the end of
  the cycle (and \<open>lastOutputState_\<close> the old one, and the OutputState parameter
  the new one): it was assigned before the write and is not rolled back. The
  failure is reported through \<open>setAlarmStatus\<close> with \<open>WRITE_ALARM\<close> and
  \<open>MAJOR_ALARM\<close>, \<open>alarmStatus_\<close> is 2 (MAJOR), and the OutputState parameter
  carries alarm severity 2.
\<close>

theorem C8_write_failure_keeps_flip:
  fixes c :: controller and simulated :: double and rnd :: "real \<Rightarrow> double"
    and writeConnect :: asynStatus and now :: nat and eh :: ErrorHandler
  defines "sample \<equiv> currentValue_m (snd (readCurrentValueFromDevice asynSuccess simulated c))"
  defines "r \<equiv> processThresholdLogic rnd asynSuccess simulated writeConnect now c eh"
  assumes "enabled_m c" and "writeConnect \<noteq> asynSuccess"
    and "if outputState_m c
         then dless sample (dsub rnd (thresholdValue_m c) (hysteresis_m c))
         else dgt sample (thresholdValue_m c)"
  shows "outputState_m (fst r) = (\<not> outputState_m c) \<and>
    lastOutputState_m (fst r) = outputState_m c \<and>
    intParams (fst r) P_OutputState = Some (if outputState_m c then 0 else 1) \<and>
    alarmStatus_m (fst r) = 2 \<and>
    paramAlarmSeverity (fst r) P_OutputState = 2 \<and>
    logged (snd r) = logged eh @
      [(ERROR, ''processThresholdLogic'',
        MsgCommError (devicePortName_m c) (deviceAddr_m c) TxtSetOutputState),
       (ERROR, ''ErrorHandler::setAlarmStatus'', MsgAlarmSet COMM_ALARM MAJOR_ALARM),
       (ERROR, ''ErrorHandler::setAlarmStatus'', MsgAlarmSet WRITE_ALARM MAJOR_ALARM)]"
proof -
  let ?new = "if outputState_m c
     then \<not> dless sample (dsub rnd (thresholdValue_m c) (hysteresis_m c))
     else dgt sample (thresholdValue_m c)"
  have n: "?new = (\<not> outputState_m c)"
    using assms(5) by (simp split: if_splits)
  have ch: "?new \<noteq> outputState_m c"
    using n by simp
  note pd = process_decision [OF assms(3), where simulated = simulated and rnd = rnd
      and writeConnect = writeConnect and now = now and eh = eh, folded sample_def r_def]
  have "outputState_m (fst r) = (\<not> outputState_m c)"
    using pd(1) n by simp
  moreover have "lastOutputState_m (fst r) = outputState_m c"
    using pd(3) [OF ch] .
  moreover have "intParams (fst r) P_OutputState = Some (if outputState_m c then 0 else 1)"
    using pd(4) [OF ch] n by simp
  moreover have "alarmStatus_m (fst r) = 2"
    using pd(5) [OF ch assms(4)] .
  moreover have "paramAlarmSeverity (fst r) P_OutputState = 2"
    using pd(6) [OF ch assms(4)] .
  moreover have "logged (snd r) = logged eh @
      [(ERROR, ''processThresholdLogic'',
        MsgCommError (devicePortName_m c) (deviceAddr_m c) TxtSetOutputState),
       (ERROR, ''ErrorHandler::setAlarmStatus'', MsgAlarmSet COMM_ALARM MAJOR_ALARM),
       (ERROR, ''ErrorHandler::setAlarmStatus'', MsgAlarmSet WRITE_ALARM MAJOR_ALARM)]"
    using pd(7) [OF ch assms(4)] by (simp add: write_failure_log)
  ultimately show ?thesis
    by simp
qed


theorem C8_write_failure_keeps_flip_witness:
  "enabled_m ctl_running \<and> asynDisconnected \<noteq> asynSuccess \<and> \<not> outputState_m ctl_running \<and>
   dgt (currentValue_m (snd (readCurrentValueFromDevice asynSuccess (Finite (5 / 2)) ctl_running)))
     (thresholdValue_m ctl_running) \<and>
   outputState_m (fst (processThresholdLogic Finite asynSuccess (Finite (5 / 2)) asynDisconnected 1
                         ctl_running eh_initial)) \<and>
   alarmStatus_m (fst (processThresholdLogic Finite asynSuccess (Finite (5 / 2)) asynDisconnected 1
                         ctl_running eh_initial)) = 2 \<and>
   logged (snd (processThresholdLogic Finite asynSuccess (Finite (5 / 2)) asynDisconnected 1
                  ctl_running eh_initial)) =
     [(ERROR, ''processThresholdLogic'', MsgCommError ''DEV1'' 0 TxtSetOutputState),
      (ERROR, ''ErrorHandler::setAlarmStatus'', MsgAlarmSet COMM_ALARM MAJOR_ALARM),
      (ERROR, ''ErrorHandler::setAlarmStatus'', MsgAlarmSet WRITE_ALARM MAJOR_ALARM)]"
  using C8_write_failure_keeps_flip [where c = ctl_running and simulated = "Finite (5 / 2)"
      and rnd = Finite and writeConnect = asynDisconnected and now = 1 and eh = eh_initial]
  by (simp add: ctl_running_fields read_sample dgt_def eh_initial_def)

section \<open>The setters\<close>

text \<open>
  Claim C6: a write of ThresholdValue with a value below -10.0 or above 10.0, or
  a NaN or an infinity, returns \<open>asynError\<close> and leaves the controller as it
  was, \<open>thresholdValue_\<close> included; the same for Hysteresis and the range from
  0.0 to 5.0. (The rejection is logged, which counts in the global error
  statistics; the controller itself does not change.)
\<close>

theorem C6_rejected_setters:
  "(isnan v \<or> isinf v \<or> dless v (Finite (- 10)) \<or> dgt v (Finite 10) \<longrightarrow>
      fst (writeFloat64 base \<lparr>reason = P_ThresholdValue\<rparr> v c eh) = asynError \<and>
      fst (snd (writeFloat64 base \<lparr>reason = P_ThresholdValue\<rparr> v c eh)) = c) \<and>
   (isnan v \<or> isinf v \<or> dless v (Finite 0) \<or> dgt v (Finite 5) \<longrightarrow>
      fst (writeFloat64 base \<lparr>reason = P_Hysteresis\<rparr> v c eh) = asynError \<and>
      fst (snd (writeFloat64 base \<lparr>reason = P_Hysteresis\<rparr> v c eh)) = c)"
proof (intro conjI impI)
  assume a: "isnan v \<or> isinf v \<or> dless v (Finite (- 10)) \<or> dgt v (Finite 10)"
  have r: "\<not> fst (validateParameter (Some ''thresholdValue'') v (Finite (- 10)) (Finite 10)
                    (Some ''writeFloat64'') eh)"
    using validateParameter_rejects [OF a] by simp
  show "fst (writeFloat64 base \<lparr>reason = P_ThresholdValue\<rparr> v c eh) = asynError"
    using r by (simp add: writeFloat64_def finishWrite_def Let_def split_beta)
  show "fst (snd (writeFloat64 base \<lparr>reason = P_ThresholdValue\<rparr> v c eh)) = c"
    using r by (simp add: writeFloat64_def finishWrite_def Let_def split_beta)
next
  assume a: "isnan v \<or> isinf v \<or> dless v (Finite 0) \<or> dgt v (Finite 5)"
  have r: "\<not> fst (validateParameter (Some ''hysteresis'') v (Finite 0) (Finite 5)
                    (Some ''writeFloat64'') eh)"
    using validateParameter_rejects [OF a] by simp
  show "fst (writeFloat64 base \<lparr>reason = P_Hysteresis\<rparr> v c eh) = asynError"
    using r by (simp add: writeFloat64_def finishWrite_def Let_def split_beta)
  show "fst (snd (writeFloat64 base \<lparr>reason = P_Hysteresis\<rparr> v c eh)) = c"
    using r by (simp add: writeFloat64_def finishWrite_def Let_def split_beta)
qed

theorem C6_rejected_setters_witness:
  "dgt (Finite 11) (Finite 10) \<and> dgt (Finite 11) (Finite 5) \<and> isnan NaN \<and>
   fst (writeFloat64 asynError \<lparr>reason = P_ThresholdValue\<rparr> (Finite 11) ctl_configured eh_initial)
     = asynError \<and>
   thresholdValue_m
     (fst (snd (writeFloat64 asynError \<lparr>reason = P_ThresholdValue\<rparr> (Finite 11) ctl_configured
                  eh_initial))) = Finite 2 \<and>
   fst (writeFloat64 asynError \<lparr>reason = P_Hysteresis\<rparr> (Finite 11) ctl_configured eh_initial)
     = asynError \<and>
   hysteresis_m
     (fst (snd (writeFloat64 asynError \<lparr>reason = P_Hysteresis\<rparr> NaN ctl_configured
                  eh_initial))) = Finite (1 / 2)"
  using C6_rejected_setters [where v = "Finite 11" and c = ctl_configured and eh = eh_initial
      and base = asynError]
    C6_rejected_setters [where v = NaN and c = ctl_configured and eh = eh_initial
      and base = asynError]
  by (simp add: dgt_def ctl_configured_fields)

text \<open>
  Claim C7 (it speaks of the flag staying false, so of a controller that is
  disabled): a write of Enable with a value other than 0 to a disabled
  controller returns \<open>asynError\<close> whenever \<open>validateParameters\<close> fails or
  \<open>devicePortName_\<close> is empty (an empty name makes \<open>validateParameters\<close> fail
  whatever the other members hold). The controller that comes back is the one
  \<open>validateParameters\<close> left: still disabled, with no thread started, whatever
  the thread library would have answered.
\<close>

theorem C7_enable_rejected:
  assumes "\<not> enabled_m c" and "val \<noteq> 0"
    and "\<not> fst (validateParameters c) \<or> devicePortName_m c = []"
  shows "writeInt32 base outcome \<lparr>reason = P_Enable\<rparr> val c eh =
           (asynError, snd (validateParameters c), eh) \<and>
         \<not> enabled_m (snd (validateParameters c)) \<and>
         threadRunning_m (snd (validateParameters c)) = threadRunning_m c \<and>
         monitorThread_m (snd (validateParameters c)) = monitorThread_m c"
proof -
  have r: "\<not> fst (validateParameters c)"
    using assms(3) validateParameters_empty_port by blast
  have "writeInt32 base outcome \<lparr>reason = P_Enable\<rparr> val c eh =
           (asynError, snd (validateParameters c), eh)"
    using assms(1,2) r
    by (simp add: writeInt32_def finishWrite_def Let_def split_beta)
  then show ?thesis
    using assms(1) by (simp add: validateParameters_state)
qed

theorem C7_enable_rejected_witness:
  "\<not> enabled_m ctl_no_port \<and> (1::int) \<noteq> 0 \<and> devicePortName_m ctl_no_port = [] \<and>
   fst (writeInt32 asynError ThreadStarted \<lparr>reason = P_Enable\<rparr> 1 ctl_no_port eh_initial)
     = asynError \<and>
   \<not> enabled_m
       (fst (snd (writeInt32 asynError ThreadStarted \<lparr>reason = P_Enable\<rparr> 1 ctl_no_port
                    eh_initial))) \<and>
   \<not> threadRunning_m
       (fst (snd (writeInt32 asynError ThreadStarted \<lparr>reason = P_Enable\<rparr> 1 ctl_no_port
                    eh_initial)))"
  using C7_enable_rejected [where c = ctl_no_port and val = 1 and base = asynError
      and outcome = ThreadStarted and eh = eh_initial]
  by (simp add: ctl_no_port_fields)

text \<open>
  Claim C10: a write of Enable with any integer proceeds exactly as the write
  of 1 when the integer is not 0, and as the write of 0 when it is 0; no value
  is rejected for not being 0 or 1. On a disabled controller whose parameters
  are valid, every value other than 0 enables it, returns \<open>asynSuccess\<close> and
  stores 1 in the Enable parameter.
\<close>

theorem C10_enable_coercion:
  "writeInt32 base outcome \<lparr>reason = P_Enable\<rparr> v c eh =
     writeInt32 base outcome \<lparr>reason = P_Enable\<rparr> (if v = 0 then 0 else 1) c eh \<and>
   (v \<noteq> 0 \<and> \<not> enabled_m c \<and> fst (validateParameters c) \<longrightarrow>
      fst (writeInt32 base outcome \<lparr>reason = P_Enable\<rparr> v c eh) = asynSuccess \<and>
      enabled_m (fst (snd (writeInt32 base outcome \<lparr>reason = P_Enable\<rparr> v c eh))) \<and>
      intParams (fst (snd (writeInt32 base outcome \<lparr>reason = P_Enable\<rparr> v c eh))) P_Enable
        = Some 1)"
proof (intro conjI impI)
  show "writeInt32 base outcome \<lparr>reason = P_Enable\<rparr> v c eh =
     writeInt32 base outcome \<lparr>reason = P_Enable\<rparr> (if v = 0 then 0 else 1) c eh"
    by (simp add: writeInt32_def)
next
  assume a: "v \<noteq> 0 \<and> \<not> enabled_m c \<and> fst (validateParameters c)"
  then have p: "devicePortName_m c \<noteq> []"
    using validateParameters_port by blast
  let ?r = "writeInt32 base outcome \<lparr>reason = P_Enable\<rparr> v c eh"
  note defs = writeInt32_def finishWrite_def Let_def split_beta validateParameters_state
    setIntegerParam_def startMonitoring_def callParamCallbacks_def setDoubleParam_def
  show "fst ?r = asynSuccess"
    using a p by (simp add: defs)
  show "enabled_m (fst (snd ?r))"
    using a p by (cases outcome) (simp_all add: defs)
  show "intParams (fst (snd ?r)) P_Enable = Some 1"
    using a p by (cases outcome) (simp_all add: defs)
qed

theorem C10_enable_coercion_witness:
  "(7::int) \<noteq> 0 \<and> \<not> enabled_m ctl_configured \<and> fst (validateParameters ctl_configured) \<and>
   writeInt32 asynError ThreadStarted \<lparr>reason = P_Enable\<rparr> 7 ctl_configured eh_initial =
     writeInt32 asynError ThreadStarted \<lparr>reason = P_Enable\<rparr> 1 ctl_configured eh_initial \<and>
   fst (writeInt32 asynError ThreadStarted \<lparr>reason = P_Enable\<rparr> 7 ctl_configured eh_initial)
     = asynSuccess \<and>
   enabled_m
     (fst (snd (writeInt32 asynError ThreadStarted \<lparr>reason = P_Enable\<rparr> 7 ctl_configured
                  eh_initial)))"
proof -
  have h: "(7::int) \<noteq> 0 \<and> \<not> enabled_m ctl_configured \<and> fst (validateParameters ctl_configured)"
    using ctl_configured_valid by (simp add: ctl_configured_fields)
  note t = C10_enable_coercion [where v = 7 and c = ctl_configured and base = asynError
      and outcome = ThreadStarted and eh = eh_initial]
  have e: "writeInt32 asynError ThreadStarted \<lparr>reason = P_Enable\<rparr> 7 ctl_configured eh_initial =
     writeInt32 asynError ThreadStarted \<lparr>reason = P_Enable\<rparr> 1 ctl_configured eh_initial"
    using t by simp
  show ?thesis
    using h e t by blast
qed

end
